theory Spec2Isabelle
  imports Complex_Main "HOL-Library.Multiset"
begin

section \<open>The behaviour-injection service of rollouts/app-src/main.go\<close>

text \<open>
  The service reads three environment variables at start-up, registers three Prometheus
  series and serves five routes. Every content route asks \<open>applyBehavior\<close> for a status
  code; \<open>applyBehavior\<close> may draw random numbers and may sleep. The model threads one
  \<open>world\<close> through every function: the random source, the clock and the three metric
  series. Times are in milliseconds: every sleep of the source is a whole number of them.
\<close>

subsection \<open>Configuration: getEnv, getHostname and the package-level variables\<close>

type_synonym environ = "string \<rightharpoonup> string"

text \<open>\<open>os.Getenv\<close> returns the empty string for a variable that is not set.\<close>

definition Getenv :: "environ \<Rightarrow> string \<Rightarrow> string" where
  "Getenv env key = (case env key of None \<Rightarrow> [] | Some v \<Rightarrow> v)"

definition getEnv :: "environ \<Rightarrow> string \<Rightarrow> string \<Rightarrow> string" where
  "getEnv env key defaultValue =
     (let v = Getenv env key in if v \<noteq> [] then v else defaultValue)"

text \<open>\<open>os.Hostname\<close> is an input: \<open>None\<close> stands for its error return.\<close>

definition getHostname :: "string option \<Rightarrow> string" where
  "getHostname h = (case h of None \<Rightarrow> ''unknown'' | Some n \<Rightarrow> n)"

record config =
  version :: string
  behavior :: string
  port :: string
  hostname :: string

definition load_config :: "environ \<Rightarrow> string option \<Rightarrow> config" where
  "load_config env h =
     \<lparr>version = getEnv env ''VERSION'' ''1.0'',
      behavior = getEnv env ''BEHAVIOR'' ''normal'',
      port = getEnv env ''PORT'' ''8080'',
      hostname = getHostname h\<rparr>"

subsection \<open>The world: random source, clock and metric series\<close>

text \<open>
  \<open>math/rand\<close> is a library, so its outcomes are inputs of the model. The global source
  is a sequence of calls; \<open>rand_floats w i\<close> is what the \<open>i\<close>-th call returns when it is
  \<open>rand.Float32()\<close>, and \<open>rand_ints w i mod n\<close> what it returns when it is
  \<open>rand.Intn(n)\<close>, so that the result is below \<open>n\<close> as the library promises and every
  value below \<open>n\<close> can occur. \<open>rand_calls\<close> counts the calls made so far. The library's
  contract for \<open>Float32\<close> is a value in the half-open interval from 0 to 1.

  A counter vector is the multiset of the label tuples it was incremented with: the value
  of a sample is the multiplicity of its labels. A histogram vector is the multiset of its
  labelled observations (in seconds). The gauge vector maps labels to the value last set.
\<close>

type_synonym counter_labels = "string \<times> string \<times> string"
type_synonym histogram_labels = "string \<times> string"
type_synonym gauge_labels = "string \<times> string \<times> string"

record world =
  rand_floats :: "nat \<Rightarrow> real"
  rand_ints :: "nat \<Rightarrow> nat"
  rand_calls :: nat
  clock :: nat
  requestCounter :: "counter_labels multiset"
  requestDuration :: "(histogram_labels \<times> real) multiset"
  versionGauge :: "gauge_labels \<rightharpoonup> real"

definition Float32 :: "world \<Rightarrow> real \<times> world" where
  "Float32 w = (rand_floats w (rand_calls w), w\<lparr>rand_calls := Suc (rand_calls w)\<rparr>)"

text \<open>
  \<open>rand.Intn\<close> panics for an argument that is not positive. Every call of the source
  passes a positive literal, or the length of a slice it has just found non-empty.
\<close>

definition Intn :: "nat \<Rightarrow> world \<Rightarrow> nat \<times> world" where
  "Intn n w = (rand_ints w (rand_calls w) mod n, w\<lparr>rand_calls := Suc (rand_calls w)\<rparr>)"

definition Sleep :: "nat \<Rightarrow> world \<Rightarrow> world" where
  "Sleep ms w = w\<lparr>clock := clock w + ms\<rparr>"

definition counter_inc :: "counter_labels \<Rightarrow> world \<Rightarrow> world" where
  "counter_inc l w = w\<lparr>requestCounter := add_mset l (requestCounter w)\<rparr>"

definition observe :: "histogram_labels \<Rightarrow> real \<Rightarrow> world \<Rightarrow> world" where
  "observe l secs w = w\<lparr>requestDuration := add_mset (l, secs) (requestDuration w)\<rparr>"

text \<open>The deferred function of every handler: \<open>time.Since(start).Seconds()\<close>.\<close>

definition observe_since :: "histogram_labels \<Rightarrow> nat \<Rightarrow> world \<Rightarrow> world" where
  "observe_since l start w = observe l (real (clock w - start) / 1000) w"

subsection \<open>Status codes and their texts\<close>

abbreviation StatusOK :: nat where "StatusOK \<equiv> 200"
abbreviation StatusInternalServerError :: nat where "StatusInternalServerError \<equiv> 500"
abbreviation StatusServiceUnavailable :: nat where "StatusServiceUnavailable \<equiv> 503"

definition StatusText :: "nat \<Rightarrow> string" where
  "StatusText code =
     (if code = 200 then ''OK''
      else if code = 500 then ''Internal Server Error''
      else if code = 503 then ''Service Unavailable''
      else [])"

text \<open>\<open>fmt.Sprintf("%d", status)\<close>: the decimal digits of a natural number.\<close>

definition digit :: "nat \<Rightarrow> char" where
  "digit d = ''0123456789'' ! d"

function itoa :: "nat \<Rightarrow> string" where
  "itoa n = (if n < 10 then [digit n] else itoa (n div 10) @ [digit (n mod 10)])"
  by pat_completeness auto
termination
  by (relation "measure id") auto

declare itoa.simps [simp del]

subsection \<open>applyBehavior\<close>

text \<open>
  The switch on the behaviour string, case by case. The literals 0.5, 0.3 and 0.4 are
  compared with a \<open>float32\<close> draw; the draw is modelled by the real number it denotes.
\<close>

definition applyBehavior :: "config \<Rightarrow> world \<Rightarrow> nat \<times> world" where
  "applyBehavior c w =
     (if behavior c = ''normal'' then (StatusOK, w)
      else if behavior c = ''slow'' then
        (let (k, w1) = Intn 800 w;
             w2 = Sleep (200 + k) w1
         in (StatusOK, w2))
      else if behavior c = ''error-prone'' then
        (let (f, w1) = Float32 w
         in if f < 0.5 then (StatusInternalServerError, w1) else (StatusOK, w1))
      else if behavior c = ''chaotic'' then
        (let (f, w1) = Float32 w;
             w2 = (if f < 0.3
                   then (let (k, w') = Intn 1000 w1 in Sleep (500 + k) w')
                   else w1);
             (g, w3) = Float32 w2
         in if g < 0.4 then (StatusInternalServerError, w3) else (StatusOK, w3))
      else (StatusOK, w))"

subsection \<open>getMessage\<close>

definition messages :: "string \<rightharpoonup> string list" where
  "messages = map_of
     [(''normal'',
        [''Service operating normally'', ''All systems functional'',
         ''Request processed successfully'']),
      (''slow'',
        [''Service is experiencing delays'', ''Processing taking longer than usual'',
         ''High latency detected'']),
      (''error-prone'',
        [''Service unstable'', ''Errors may occur'', ''Degraded performance'']),
      (''chaotic'',
        [''Unpredictable behavior'', ''System under stress'', ''Erratic performance''])]"

text \<open>Indexing a Go map with a missing key gives the nil slice, of length 0.\<close>

definition getMessage :: "config \<Rightarrow> world \<Rightarrow> string \<times> world" where
  "getMessage c w =
     (let msgs = (case messages (behavior c) of None \<Rightarrow> [] | Some l \<Rightarrow> l)
      in if length msgs = 0 then (''Unknown state'', w)
         else (let (i, w1) = Intn (length msgs) w in (msgs ! i, w1)))"

subsection \<open>Requests, responses and the handlers\<close>

datatype route = RootRoute | HealthRoute | DataRoute | ProcessRoute | MetricsRoute

text \<open>
  A route is the handler the server's mux gives a request to; the pattern "/" also
  receives every path that no other pattern matches. \<open>endpoint\<close> is the pattern a
  handler is registered under, which is the endpoint label it uses.
\<close>

fun endpoint :: "route \<Rightarrow> string" where
  "endpoint RootRoute = ''/''"
| "endpoint HealthRoute = ''/health''"
| "endpoint DataRoute = ''/api/data''"
| "endpoint ProcessRoute = ''/api/process''"
| "endpoint MetricsRoute = ''/metrics''"

record request =
  Method :: string
  route :: route

text \<open>
  A JSON value of a response body. \<open>JTime t\<close> stands for the RFC 3339 rendering of the
  clock reading \<open>t\<close>. A body is a JSON object (its fields in the order the source lists
  them), the plain text written by \<open>http.Error\<close>, or the exposition of the registry.
\<close>

datatype json = JString string | JInt int | JBool bool | JTime nat

datatype body =
  JSON "(string \<times> json) list"
| PlainText string
| Exposition "counter_labels multiset" "(histogram_labels \<times> real) multiset"
    "gauge_labels \<rightharpoonup> real"

record response =
  status :: nat
  content_type :: "string option"
  body :: body

text \<open>\<open>http.Error(w, http.StatusText(status), status)\<close>.\<close>

definition http_Error :: "nat \<Rightarrow> response" where
  "http_Error code =
     \<lparr>status = code,
      content_type = Some ''text/plain; charset=utf-8'',
      body = PlainText (StatusText code @ [CHR 0x0A])\<rparr>"

definition json_ok :: "(string \<times> json) list \<Rightarrow> response" where
  "json_ok fs =
     \<lparr>status = StatusOK, content_type = Some ''application/json'', body = JSON fs\<rparr>"

definition handleRoot :: "config \<Rightarrow> request \<Rightarrow> world \<Rightarrow> response \<times> world" where
  "handleRoot c r w =
     (let start = clock w;
          (st, w1) = applyBehavior c w;
          w2 = counter_inc (Method r, ''/'', itoa st) w1
      in if st \<noteq> StatusOK then (http_Error st, observe_since (Method r, ''/'') start w2)
         else
           (let timestamp = clock w2;
                (msg, w3) = getMessage c w2
            in (json_ok
                  [(''version'', JString (version c)),
                   (''behavior'', JString (behavior c)),
                   (''hostname'', JString (hostname c)),
                   (''timestamp'', JTime timestamp),
                   (''message'', JString msg)],
                observe_since (Method r, ''/'') start w3)))"

text \<open>
  In \<open>handleHealth\<close> the draw is the right operand of \<open>&&\<close>: it is made only in
  error-prone mode. The failing branch writes the header before any content type is set.
\<close>

definition handleHealth :: "config \<Rightarrow> request \<Rightarrow> world \<Rightarrow> response \<times> world" where
  "handleHealth c r w =
     (let start = clock w;
          (fail, w1) =
            (if behavior c = ''error-prone''
             then (let (f, w') = Float32 w in (f < 0.3, w'))
             else (False, w))
      in if fail then
           (let w2 = counter_inc (Method r, ''/health'', ''503'') w1
            in (\<lparr>status = StatusServiceUnavailable, content_type = None,
                 body = JSON [(''status'', JString ''unhealthy''),
                              (''reason'', JString ''simulated failure'')]\<rparr>,
                observe_since (Method r, ''/health'') start w2))
         else
           (let w2 = counter_inc (Method r, ''/health'', ''200'') w1
            in (json_ok
                  [(''status'', JString ''healthy''),
                   (''version'', JString (version c)),
                   (''hostname'', JString (hostname c))],
                observe_since (Method r, ''/health'') start w2)))"

definition handleAPIData :: "config \<Rightarrow> request \<Rightarrow> world \<Rightarrow> response \<times> world" where
  "handleAPIData c r w =
     (let start = clock w;
          (st, w1) = applyBehavior c w;
          w2 = counter_inc (Method r, ''/api/data'', itoa st) w1
      in if st \<noteq> StatusOK
         then (http_Error st, observe_since (Method r, ''/api/data'') start w2)
         else
           (let (items, w3) = Intn 100 w2
            in (json_ok
                  [(''items'', JInt (int items)),
                   (''processed'', JBool True),
                   (''version'', JString (version c)),
                   (''hostname'', JString (hostname c)),
                   (''timestamp'', JTime (clock w3))],
                observe_since (Method r, ''/api/data'') start w3)))"

definition handleProcess :: "config \<Rightarrow> request \<Rightarrow> world \<Rightarrow> response \<times> world" where
  "handleProcess c r w =
     (let start = clock w;
          (st, w1) = applyBehavior c w;
          w2 = counter_inc (Method r, ''/api/process'', itoa st) w1
      in if st \<noteq> StatusOK
         then (http_Error st, observe_since (Method r, ''/api/process'') start w2)
         else
           (let w3 = (if behavior c = ''slow''
                      then (let (k, w') = Intn 400 w2 in Sleep (100 + k) w')
                      else w2)
            in (json_ok
                  [(''status'', JString ''completed''),
                   (''duration'', JInt (int (clock w3 - start))),
                   (''version'', JString (version c)),
                   (''hostname'', JString (hostname c))],
                observe_since (Method r, ''/api/process'') start w3)))"

text \<open>
  The metrics route is \<open>promhttp.Handler()\<close>, a library handler that renders the
  registry. main.go has no statement on this route that touches \<open>requestCounter\<close>,
  \<open>requestDuration\<close> or \<open>versionGauge\<close>.
\<close>

definition handleMetrics :: "config \<Rightarrow> request \<Rightarrow> world \<Rightarrow> response \<times> world" where
  "handleMetrics c r w =
     (\<lparr>status = StatusOK, content_type = Some ''text/plain'',
       body = Exposition (requestCounter w) (requestDuration w) (versionGauge w)\<rparr>, w)"

text \<open>The routes registered in \<open>main\<close>.\<close>

definition serve :: "config \<Rightarrow> request \<Rightarrow> world \<Rightarrow> response \<times> world" where
  "serve c r w =
     (case route r of
        RootRoute \<Rightarrow> handleRoot c r w
      | HealthRoute \<Rightarrow> handleHealth c r w
      | DataRoute \<Rightarrow> handleAPIData c r w
      | ProcessRoute \<Rightarrow> handleProcess c r w
      | MetricsRoute \<Rightarrow> handleMetrics c r w)"

text \<open>A finite sequence of requests, served one after the other.\<close>

fun serve_all :: "config \<Rightarrow> request list \<Rightarrow> world \<Rightarrow> world" where
  "serve_all c [] w = w"
| "serve_all c (r # rs) w = serve_all c rs (snd (serve c r w))"

subsection \<open>Start-up\<close>

text \<open>
  The registry before \<open>main\<close> runs: no sample in any series. \<open>startup\<close> is the one
  statement of \<open>main\<close> that writes a series.
\<close>

definition fresh_world :: "(nat \<Rightarrow> real) \<Rightarrow> (nat \<Rightarrow> nat) \<Rightarrow> world" where
  "fresh_world fs ns =
     \<lparr>rand_floats = fs, rand_ints = ns, rand_calls = 0, clock = 0,
      requestCounter = {#}, requestDuration = {#}, versionGauge = Map.empty\<rparr>"

definition startup :: "config \<Rightarrow> world \<Rightarrow> world" where
  "startup c w =
     w\<lparr>versionGauge := (versionGauge w)((version c, behavior c, hostname c) \<mapsto> 1)\<rparr>"

section \<open>Notions used in the statements\<close>

text \<open>The outcome of the next call of the random source, read as a float or as an integer.\<close>

definition next_float :: "world \<Rightarrow> real" where
  "next_float w = rand_floats w (rand_calls w)"

definition next_int :: "world \<Rightarrow> nat" where
  "next_int w = rand_ints w (rand_calls w)"

text \<open>The same world, with the next draw fixed to \<open>d\<close>.\<close>

definition with_next_float :: "real \<Rightarrow> world \<Rightarrow> world" where
  "with_next_float d w = w\<lparr>rand_floats := (rand_floats w)(rand_calls w := d)\<rparr>"

text \<open>
  A uniform draw on a grid of \<open>N\<close> equally likely values \<open>k / N\<close>, \<open>k < N\<close>:
  \<open>error_draws c w N\<close> lists the grid points at which \<open>applyBehavior\<close> answers 500.
  The probability of a 500 is the length of that list divided by \<open>N\<close>.
\<close>

definition error_draws :: "config \<Rightarrow> world \<Rightarrow> nat \<Rightarrow> nat list" where
  "error_draws c w N =
     filter (\<lambda>k. fst (applyBehavior c (with_next_float (real k / real N) w)) = 500) [0..<N]"

text \<open>The time \<open>applyBehavior\<close> sleeps: the advance of the clock over the call.\<close>

definition injected_delay :: "config \<Rightarrow> world \<Rightarrow> nat" where
  "injected_delay c w = clock (snd (applyBehavior c w)) - clock w"

text \<open>In chaotic mode the second \<open>Float32\<close> call follows the first directly, or follows
  the \<open>Intn\<close> call that sizes the delay: it is the second or the third call of the source.\<close>

definition second_float :: "world \<Rightarrow> real" where
  "second_float w = rand_floats w (rand_calls w + (if next_float w < 0.3 then 2 else 1))"

text \<open>The same world, with the first float draw fixed to \<open>d1\<close> and every later one to \<open>d2\<close>.\<close>

definition with_two_floats :: "real \<Rightarrow> real \<Rightarrow> world \<Rightarrow> world" where
  "with_two_floats d1 d2 w = w\<lparr>rand_floats := (\<lambda>i. if i = rand_calls w then d1 else d2)\<rparr>"

text \<open>Two independent uniform draws on a grid of \<open>N\<close> values each: the number of the
  \<open>N * N\<close> equally likely pairs at which the delay and the status of \<open>applyBehavior\<close>
  satisfy the event \<open>ev\<close>. The probability of the event is that number divided by
  \<open>N * N\<close>.\<close>

definition grid_count :: "config \<Rightarrow> world \<Rightarrow> nat \<Rightarrow> (nat \<Rightarrow> nat \<Rightarrow> bool) \<Rightarrow> nat" where
  "grid_count c w N ev =
     length (filter
       (\<lambda>(j, k). let w' = with_two_floats (real j / real N) (real k / real N) w
                in ev (injected_delay c w') (fst (applyBehavior c w')))
       (List.product [0..<N] [0..<N]))"

text \<open>The time a whole request sleeps: the advance of the clock over the handler.\<close>

definition served_delay :: "config \<Rightarrow> request \<Rightarrow> world \<Rightarrow> nat" where
  "served_delay c r w = clock (snd (serve c r w)) - clock w"

text \<open>The request counter summed over every method label and every status label of one
  endpoint.\<close>

definition counter_sum :: "string \<Rightarrow> counter_labels multiset \<Rightarrow> nat" where
  "counter_sum e M = size (filter_mset (\<lambda>(m, e', s). e' = e) M)"

text \<open>The number of duration observations of one endpoint, over every method label.\<close>

definition observation_count :: "string \<Rightarrow> (histogram_labels \<times> real) multiset \<Rightarrow> nat" where
  "observation_count e H = size (filter_mset (\<lambda>((m, e'), secs). e' = e) H)"

text \<open>The number of requests of a sequence that are made to a route.\<close>

definition requests_to :: "route \<Rightarrow> request list \<Rightarrow> nat" where
  "requests_to rt rs = length (filter (\<lambda>r. route r = rt) rs)"

text \<open>The field of a JSON body, if the body is JSON and has it.\<close>

fun json_field :: "string \<Rightarrow> body \<Rightarrow> json option" where
  "json_field k (JSON fs) = map_of fs k"
| "json_field k (PlainText t) = None"
| "json_field k (Exposition a b g) = None"

text \<open>Concrete inputs: a configuration, a world with constant draws, a GET request.\<close>

definition demo_config :: "string \<Rightarrow> config" where
  "demo_config b = \<lparr>version = ''1.0'', behavior = b, port = ''8080'', hostname = ''pod-0''\<rparr>"

definition demo_world :: "real \<Rightarrow> nat \<Rightarrow> world" where
  "demo_world f n = fresh_world (\<lambda>_. f) (\<lambda>_. n)"

definition GET :: "route \<Rightarrow> request" where
  "GET rt = \<lparr>Method = ''GET'', route = rt\<rparr>"

section \<open>Auxiliary facts\<close>

lemma itoa_200: "itoa 200 = ''200''"
  by (simp add: itoa.simps digit_def)

lemma itoa_500: "itoa 500 = ''500''"
  by (simp add: itoa.simps digit_def)

lemma applyBehavior_status: "fst (applyBehavior c w) = 200 \<or> fst (applyBehavior c w) = 500"
  by (simp add: applyBehavior_def Float32_def Intn_def Sleep_def Let_def split: prod.splits)

lemma applyBehavior_frame:
  "requestCounter (snd (applyBehavior c w)) = requestCounter w \<and>
   requestDuration (snd (applyBehavior c w)) = requestDuration w \<and>
   versionGauge (snd (applyBehavior c w)) = versionGauge w \<and>
   rand_floats (snd (applyBehavior c w)) = rand_floats w \<and>
   rand_ints (snd (applyBehavior c w)) = rand_ints w"
  by (simp add: applyBehavior_def Float32_def Intn_def Sleep_def Let_def split: prod.splits)

lemma getMessage_frame:
  "requestCounter (snd (getMessage c w)) = requestCounter w \<and>
   requestDuration (snd (getMessage c w)) = requestDuration w \<and>
   versionGauge (snd (getMessage c w)) = versionGauge w \<and>
   clock (snd (getMessage c w)) = clock w"
  by (simp add: getMessage_def Intn_def Let_def split: prod.splits)

lemma next_float_with [simp]: "next_float (with_next_float d w) = d"
  by (simp add: next_float_def with_next_float_def)

lemma next_float_demo [simp]: "next_float (demo_world x n) = x"
  by (simp add: next_float_def demo_world_def fresh_world_def)

lemma behavior_demo [simp]: "behavior (demo_config b) = b"
  by (simp add: demo_config_def)

text \<open>
  Counting the grid points below a threshold: when a predicate on \<open>k < N\<close> is
  \<open>k < M\<close>, exactly \<open>M\<close> of the \<open>N\<close> points satisfy it.
\<close>

lemma length_filter_upt_below:
  assumes "M \<le> N" and "\<And>k. k < N \<Longrightarrow> P k \<longleftrightarrow> k < M"
  shows "length (filter P [0..<N]) = M"
proof -
  have "{i. i < length [0..<N] \<and> P ([0..<N] ! i)} = {..<M}"
    using assms by auto
  then show ?thesis
    by (simp add: length_filter_conv_card)
qed

subsection \<open>The float literals\<close>

text \<open>
  Go converts the literals 0.3 and 0.4 to \<open>float32\<close> before it compares them with the
  draw: to 10066330 / 2^25 and 13421773 / 2^25, the nearest values of that type. A
  \<open>float32\<close> between 1/4 and 1/2 is a multiple of 1 / 2^25, one below 1/4 is below
  both the literal and its rounding, and one from 1/2 on is a multiple of 1 / 2^25 as well.
  For such draws the comparison with the rounded literal and the comparison with the
  exact decimal agree, which is why the model compares with 0.3 and 0.4 themselves. The
  literal 0.5 is a \<open>float32\<close>.
\<close>

lemma float32_literal_0_3:
  "real m / 2 ^ 25 < 10066330 / 2 ^ 25 \<longleftrightarrow> real m / 2 ^ 25 < 3 / 10"
proof -
  have "real m / 2 ^ 25 < 3 / 10 \<longleftrightarrow> real (10 * m) < real 100663296"
    by (simp add: field_simps)
  also have "\<dots> \<longleftrightarrow> 10 * m < 100663296"
    by (simp only: of_nat_less_iff)
  also have "\<dots> \<longleftrightarrow> m < 10066330"
    by arith
  also have "\<dots> \<longleftrightarrow> real m / 2 ^ 25 < 10066330 / 2 ^ 25"
    by (simp add: field_simps)
  finally show ?thesis by simp
qed

lemma float32_literal_0_4:
  "real m / 2 ^ 25 < 13421773 / 2 ^ 25 \<longleftrightarrow> real m / 2 ^ 25 < 4 / 10"
proof -
  have "real m / 2 ^ 25 < 4 / 10 \<longleftrightarrow> real (10 * m) < real 134217728"
    by (simp add: field_simps)
  also have "\<dots> \<longleftrightarrow> 10 * m < 134217728"
    by (simp only: of_nat_less_iff)
  also have "\<dots> \<longleftrightarrow> m < 13421773"
    by arith
  also have "\<dots> \<longleftrightarrow> real m / 2 ^ 25 < 13421773 / 2 ^ 25"
    by (simp add: field_simps)
  finally show ?thesis by simp
qed

subsection \<open>Error-prone mode\<close>

lemma error_prone_status:
  "behavior c = ''error-prone'' \<Longrightarrow>
   applyBehavior c w =
     (if next_float w < 1/2 then 500 else 200, w\<lparr>rand_calls := Suc (rand_calls w)\<rparr>)"
  by (simp add: applyBehavior_def Float32_def next_float_def)

lemma error_draws_half:
  assumes "behavior c = ''error-prone''" and "even N"
  shows "2 * length (error_draws c w N) = N"
proof -
  have "length (filter (\<lambda>k. real k / real N < 1/2) [0..<N]) = N div 2"
  proof (rule length_filter_upt_below)
    show "N div 2 \<le> N" by simp
  next
    fix k assume "k < N"
    then have "real k / real N < 1/2 \<longleftrightarrow> 2 * real k < real N"
      by (simp add: field_simps)
    also have "\<dots> \<longleftrightarrow> 2 * k < N"
      by (metis of_nat_less_iff of_nat_mult of_nat_numeral)
    also have "\<dots> \<longleftrightarrow> k < N div 2"
      using \<open>even N\<close> by (auto elim!: evenE)
    finally show "real k / real N < 1/2 \<longleftrightarrow> k < N div 2" .
  qed
  then have "length (error_draws c w N) = N div 2"
    by (simp add: error_draws_def error_prone_status [OF assms(1)])
  with \<open>even N\<close> show ?thesis by auto
qed

lemma serve_content_error_prone:
  assumes "behavior c = ''error-prone''"
    and "route r \<in> {RootRoute, DataRoute, ProcessRoute}"
  shows "status (fst (serve c r w)) = (if next_float w < 1/2 then 500 else 200) \<and>
         clock (snd (serve c r w)) = clock w"
  using assms
  by (auto simp: serve_def handleRoot_def handleAPIData_def handleProcess_def
      error_prone_status counter_inc_def observe_since_def observe_def http_Error_def
      json_ok_def getMessage_def Intn_def Let_def split: prod.splits)

text \<open>
  C1. In error-prone mode \<open>applyBehavior\<close> returns 500 exactly when its draw is below
  0.5 and 200 otherwise, and it leaves the clock alone; the same holds for the response of
  the root, data and process routes. On a uniform grid of an even number \<open>N\<close> of draws,
  exactly half of the draws give 500: the probability of a 500 is 0.5.
\<close>

theorem error_prone_half:
  assumes "behavior c = ''error-prone''"
  shows "fst (applyBehavior c w) = (if next_float w < 0.5 then 500 else 200) \<and>
         clock (snd (applyBehavior c w)) = clock w \<and>
         (route r \<in> {RootRoute, DataRoute, ProcessRoute} \<longrightarrow>
            status (fst (serve c r w)) = (if next_float w < 0.5 then 500 else 200) \<and>
            clock (snd (serve c r w)) = clock w) \<and>
         (even N \<longrightarrow> 2 * length (error_draws c w N) = N)"
  using assms serve_content_error_prone [OF assms, of r w] error_draws_half [OF assms, of N w]
  by (simp add: error_prone_status)

theorem error_prone_half_witness:
  "behavior (demo_config ''error-prone'') = ''error-prone'' \<and>
   route (GET ProcessRoute) \<in> {RootRoute, DataRoute, ProcessRoute} \<and> even (4::nat) \<and>
   fst (applyBehavior (demo_config ''error-prone'') (demo_world (1/4) 0)) = 500 \<and>
   status (fst (serve (demo_config ''error-prone'') (GET ProcessRoute)
     (demo_world (3/4) 0))) = 200 \<and>
   2 * length (error_draws (demo_config ''error-prone'') (demo_world 0 0) 4) = 4"
proof -
  have b: "behavior (demo_config ''error-prone'') = ''error-prone''"
    by simp
  show ?thesis
    using b
      error_prone_half [OF b, of "demo_world (1/4) 0" "GET ProcessRoute" 4]
      error_prone_half [OF b, of "demo_world (3/4) 0" "GET ProcessRoute" 4]
      error_prone_half [OF b, of "demo_world 0 0" "GET ProcessRoute" 4]
    by (simp add: GET_def)
qed

subsection \<open>Normal mode\<close>

lemma normal_status: "behavior c = ''normal'' \<Longrightarrow> applyBehavior c w = (200, w)"
  by (simp add: applyBehavior_def)

lemma serve_normal_clock:
  assumes "behavior c = ''normal''"
  shows "clock (snd (serve c r w)) = clock w"
  using assms
  by (cases "route r")
     (simp_all add: serve_def handleRoot_def handleAPIData_def handleProcess_def
       handleHealth_def handleMetrics_def normal_status counter_inc_def observe_since_def
       observe_def getMessage_def Intn_def Let_def split: prod.splits)

lemma serve_normal_status:
  assumes "behavior c = ''normal''"
  shows "status (fst (serve c r w)) = 200"
  using assms
  by (cases "route r")
     (simp_all add: serve_def handleRoot_def handleAPIData_def handleProcess_def
       handleHealth_def handleMetrics_def normal_status json_ok_def Let_def
       split: prod.splits)

text \<open>
  C7. In normal mode \<open>applyBehavior\<close> returns 200 and leaves the world as it found it
  (no draw, no sleep), and every request to the root, data and process routes is answered
  200 with the clock where it was: no handler sleeps, whatever the random source holds.
\<close>

theorem normal_mode_ok:
  assumes "behavior c = ''normal''"
  shows "applyBehavior c w = (200, w) \<and>
         (route r \<in> {RootRoute, DataRoute, ProcessRoute} \<longrightarrow>
            status (fst (serve c r w)) = 200 \<and> clock (snd (serve c r w)) = clock w)"
  using assms by (simp add: normal_status serve_normal_clock serve_normal_status)

theorem normal_mode_ok_witness:
  "behavior (demo_config ''normal'') = ''normal'' \<and>
   route (GET ProcessRoute) \<in> {RootRoute, DataRoute, ProcessRoute} \<and>
   applyBehavior (demo_config ''normal'') (demo_world 0 7) = (200, demo_world 0 7) \<and>
   status (fst (serve (demo_config ''normal'') (GET ProcessRoute) (demo_world 0 7))) = 200 \<and>
   clock (snd (serve (demo_config ''normal'') (GET ProcessRoute) (demo_world 0 7))) = 0"
proof -
  have b: "behavior (demo_config ''normal'') = ''normal''" by simp
  have "clock (demo_world 0 7) = 0" by (simp add: demo_world_def fresh_world_def)
  then show ?thesis
    using b normal_mode_ok [OF b, of "demo_world 0 7" "GET ProcessRoute"]
    by (simp add: GET_def)
qed

subsection \<open>The health route\<close>

lemma health_error_prone:
  assumes "behavior c = ''error-prone''"
  shows "fst (handleHealth c r w) =
     (if next_float w < 0.3
      then \<lparr>status = 503, content_type = None,
            body = JSON [(''status'', JString ''unhealthy''),
                         (''reason'', JString ''simulated failure'')]\<rparr>
      else json_ok [(''status'', JString ''healthy''), (''version'', JString (version c)),
                    (''hostname'', JString (hostname c))])"
  using assms by (simp add: handleHealth_def Float32_def next_float_def Let_def)

lemma health_other:
  assumes "behavior c \<noteq> ''error-prone''"
  shows "fst (handleHealth c r w) =
     json_ok [(''status'', JString ''healthy''), (''version'', JString (version c)),
              (''hostname'', JString (hostname c))]"
  using assms by (simp add: handleHealth_def Let_def)

text \<open>
  C4. On the health route: in error-prone mode the answer is 503 with body status
  "unhealthy" exactly when the draw is below 0.3, and 200 with body status "healthy"
  otherwise; for every other behaviour string the answer is 200 with body status
  "healthy", whatever the random source holds.
\<close>

theorem health_rule:
  assumes "route r = HealthRoute"
  shows "(behavior c = ''error-prone'' \<longrightarrow>
            status (fst (serve c r w)) = (if next_float w < 0.3 then 503 else 200) \<and>
            json_field ''status'' (body (fst (serve c r w))) =
              Some (JString (if next_float w < 0.3 then ''unhealthy'' else ''healthy''))) \<and>
         (behavior c \<noteq> ''error-prone'' \<longrightarrow>
            status (fst (serve c r w)) = 200 \<and>
            json_field ''status'' (body (fst (serve c r w))) = Some (JString ''healthy''))"
  using assms by (simp add: serve_def health_error_prone health_other json_ok_def)

theorem health_rule_witness:
  "route (GET HealthRoute) = HealthRoute \<and>
   status (fst (serve (demo_config ''error-prone'') (GET HealthRoute)
      (demo_world (1/4) 0))) = 503 \<and>
   json_field ''status'' (body (fst (serve (demo_config ''error-prone'') (GET HealthRoute)
      (demo_world (1/4) 0)))) = Some (JString ''unhealthy'') \<and>
   status (fst (serve (demo_config ''error-prone'') (GET HealthRoute)
      (demo_world (1/2) 0))) = 200 \<and>
   json_field ''status'' (body (fst (serve (demo_config ''error-prone'') (GET HealthRoute)
      (demo_world (1/2) 0)))) = Some (JString ''healthy'') \<and>
   ''chaotic'' \<noteq> ''error-prone'' \<and>
   status (fst (serve (demo_config ''chaotic'') (GET HealthRoute) (demo_world 0 0))) = 200 \<and>
   json_field ''status'' (body (fst (serve (demo_config ''chaotic'') (GET HealthRoute)
      (demo_world 0 0)))) = Some (JString ''healthy'')"
proof -
  have r: "route (GET HealthRoute) = HealthRoute" by (simp add: GET_def)
  show ?thesis
    using r
      health_rule [OF r, of "demo_config ''error-prone''" "demo_world (1/4) 0"]
      health_rule [OF r, of "demo_config ''error-prone''" "demo_world (1/2) 0"]
      health_rule [OF r, of "demo_config ''chaotic''" "demo_world 0 0"]
    by simp
qed

subsection \<open>Configuration\<close>

text \<open>
  C9. \<open>getEnv\<close> returns the value of the variable when it is set and not empty, and the
  default otherwise; a variable set to the empty string and a variable that is not set
  both give the default. The version, the behaviour and the port are \<open>getEnv\<close> of
  VERSION, BEHAVIOR and PORT with the defaults "1.0", "normal" and "8080".
\<close>

theorem getEnv_resolution:
  "getEnv env key d = (case env key of None \<Rightarrow> d | Some v \<Rightarrow> if v = [] then d else v) \<and>
   getEnv (env(key \<mapsto> [])) key d = d \<and>
   getEnv (env(key := None)) key d = d \<and>
   version (load_config env h) = getEnv env ''VERSION'' ''1.0'' \<and>
   behavior (load_config env h) = getEnv env ''BEHAVIOR'' ''normal'' \<and>
   port (load_config env h) = getEnv env ''PORT'' ''8080'' \<and>
   version (load_config Map.empty h) = ''1.0'' \<and>
   behavior (load_config Map.empty h) = ''normal'' \<and>
   port (load_config Map.empty h) = ''8080''"
  by (simp add: getEnv_def Getenv_def load_config_def split: option.splits)

subsection \<open>The status codes of the service\<close>

lemma serve_status_cases:
  "route r \<noteq> HealthRoute \<Longrightarrow> status (fst (serve c r w)) \<in> {200, 500}"
  using applyBehavior_status [of c w]
  by (cases "route r")
     (auto simp: serve_def handleRoot_def handleAPIData_def handleProcess_def
       handleMetrics_def http_Error_def json_ok_def Let_def split: prod.splits)

lemma health_status_cases:
  "status (fst (handleHealth c r w)) = 200 \<or> status (fst (handleHealth c r w)) = 503"
  by (simp add: handleHealth_def json_ok_def Let_def split: prod.splits)

text \<open>
  C10. For every behaviour string and every random source \<open>applyBehavior\<close> returns 200
  or 500; a response with status 503 comes from the health route only, whose own rule
  answers 200 or 503.
\<close>

theorem only_health_answers_503:
  "(fst (applyBehavior c w) = 200 \<or> fst (applyBehavior c w) = 500) \<and>
   (status (fst (serve c r w)) = 503 \<longrightarrow> route r = HealthRoute) \<and>
   (status (fst (handleHealth c r w)) = 200 \<or> status (fst (handleHealth c r w)) = 503)"
proof -
  have "route r = HealthRoute" if "status (fst (serve c r w)) = 503"
  proof (rule ccontr)
    assume "route r \<noteq> HealthRoute"
    from serve_status_cases [OF this, of c w] that show False by simp
  qed
  with applyBehavior_status [of c w] health_status_cases [of c r w] show ?thesis
    by blast
qed

theorem only_health_answers_503_witness:
  "status (fst (serve (demo_config ''error-prone'') (GET HealthRoute)
      (demo_world (1/4) 0))) = 503 \<and>
   route (GET HealthRoute) = HealthRoute \<and>
   fst (applyBehavior (demo_config ''error-prone'') (demo_world (1/4) 0)) = 500"
proof -
  have s: "status (fst (serve (demo_config ''error-prone'') (GET HealthRoute)
      (demo_world (1/4) 0))) = 503"
    by (simp add: serve_def handleHealth_def GET_def demo_config_def demo_world_def
        fresh_world_def Float32_def Let_def)
  have a: "fst (applyBehavior (demo_config ''error-prone'') (demo_world (1/4) 0)) = 500"
    by (simp add: applyBehavior_def demo_config_def demo_world_def fresh_world_def
        Float32_def)
  from s a show ?thesis
    using only_health_answers_503 [of "demo_config ''error-prone''" "demo_world (1/4) 0"
        "GET HealthRoute"]
    by blast
qed

subsection \<open>Delays of the content routes\<close>

lemma chaotic_result:
  assumes "behavior c = ''chaotic''"
  shows "fst (applyBehavior c w) = (if second_float w < 0.4 then 500 else 200) \<and>
         injected_delay c w =
           (if next_float w < 0.3 then 500 + rand_ints w (Suc (rand_calls w)) mod 1000 else 0)"
  using assms
  by (simp add: applyBehavior_def injected_delay_def second_float_def next_float_def
      Float32_def Intn_def Sleep_def Let_def)

lemma two_floats_first [simp]: "next_float (with_two_floats a b w) = a"
  by (simp add: next_float_def with_two_floats_def)

lemma two_floats_second [simp]: "second_float (with_two_floats a b w) = b"
  by (simp add: second_float_def next_float_def with_two_floats_def)

lemma length_filter_product:
  "length (filter (\<lambda>(a, b). P a \<and> Q b) (List.product xs ys)) =
   length (filter P xs) * length (filter Q ys)"
proof (induction xs)
  case Nil
  then show ?case by simp
next
  case (Cons x xs)
  have "filter (\<lambda>(a, b). P a \<and> Q b) (map (Pair x) ys) =
        (if P x then map (Pair x) (filter Q ys) else [])"
    by (induction ys) auto
  with Cons show ?case by simp
qed

lemma grid_below:
  assumes "10 dvd N" and "0 < p" and "p \<le> 10"
  shows "length (filter (\<lambda>k. real k / real N < real p / 10) [0..<N]) = p * (N div 10)"
proof (rule length_filter_upt_below)
  from assms obtain m where m: "N = 10 * m" by auto
  then have "p * (N div 10) = p * m" by simp
  also have "\<dots> \<le> 10 * m" using assms(3) by simp
  finally show "p * (N div 10) \<le> N" using m by simp
next
  fix k assume "k < N"
  from assms obtain m where m: "N = 10 * m" by auto
  with \<open>k < N\<close> have "0 < m" by auto
  have "real k / real N < real p / 10 \<longleftrightarrow> 10 * real k < real p * real N"
    using \<open>k < N\<close> by (simp add: field_simps)
  also have "\<dots> \<longleftrightarrow> real (10 * k) < real (p * N)"
    by simp
  also have "\<dots> \<longleftrightarrow> 10 * k < p * N"
    by (simp only: of_nat_less_iff)
  also have "\<dots> \<longleftrightarrow> k < p * m"
    using m by auto
  finally show "real k / real N < real p / 10 \<longleftrightarrow> k < p * (N div 10)"
    using m by simp
qed

lemma grid_count_chaotic:
  assumes "behavior c = ''chaotic''" and "10 dvd N"
  shows "grid_count c w N (\<lambda>d s. 0 < d \<and> s = 500) = 3 * (N div 10) * (4 * (N div 10))"
    and "grid_count c w N (\<lambda>d s. 0 < d) = 3 * (N div 10) * N"
    and "grid_count c w N (\<lambda>d s. s = 500) = N * (4 * (N div 10))"
proof -
  let ?P = "\<lambda>j. real j / real N < 3 / 10"
  let ?Q = "\<lambda>k. real k / real N < 4 / 10"
  let ?T = "\<lambda>k::nat. True"
  have a: "length (filter ?P [0..<N]) = 3 * (N div 10)"
    using grid_below [OF assms(2), of 3] by simp
  have b: "length (filter ?Q [0..<N]) = 4 * (N div 10)"
    using grid_below [OF assms(2), of 4] by simp
  have t: "length (filter ?T [0..<N]) = N"
    by simp
  have "grid_count c w N (\<lambda>d s. 0 < d \<and> s = 500) =
        length (filter (\<lambda>(j, k). ?P j \<and> ?Q k) (List.product [0..<N] [0..<N]))"
    unfolding grid_count_def
    by (rule arg_cong [where f = length], rule filter_cong)
       (auto simp: chaotic_result [OF assms(1)])
  then show "grid_count c w N (\<lambda>d s. 0 < d \<and> s = 500) = 3 * (N div 10) * (4 * (N div 10))"
    by (simp only: length_filter_product a b)
  have "grid_count c w N (\<lambda>d s. 0 < d) =
        length (filter (\<lambda>(j, k). ?P j \<and> ?T k) (List.product [0..<N] [0..<N]))"
    unfolding grid_count_def
    by (rule arg_cong [where f = length], rule filter_cong)
       (auto simp: chaotic_result [OF assms(1)])
  then show "grid_count c w N (\<lambda>d s. 0 < d) = 3 * (N div 10) * N"
    by (simp only: length_filter_product a t)
  have "grid_count c w N (\<lambda>d s. s = 500) =
        length (filter (\<lambda>(j, k). ?T j \<and> ?Q k) (List.product [0..<N] [0..<N]))"
    unfolding grid_count_def
    by (rule arg_cong [where f = length], rule filter_cong)
       (auto simp: chaotic_result [OF assms(1)])
  then show "grid_count c w N (\<lambda>d s. s = 500) = N * (4 * (N div 10))"
    by (simp only: length_filter_product b t)
qed

lemma applyBehavior_clock_mono: "clock w \<le> clock (snd (applyBehavior c w))"
  by (simp add: applyBehavior_def Float32_def Intn_def Sleep_def Let_def split: prod.splits)

lemma serve_content_status:
  assumes "route r \<in> {RootRoute, DataRoute, ProcessRoute}"
  shows "status (fst (serve c r w)) = fst (applyBehavior c w)"
  using assms applyBehavior_status [of c w]
  by (auto simp: serve_def handleRoot_def handleAPIData_def handleProcess_def
      http_Error_def json_ok_def Let_def split: prod.splits)

lemma serve_root_data_delay:
  assumes "route r \<in> {RootRoute, DataRoute}"
  shows "served_delay c r w = injected_delay c w"
  using assms
  by (auto simp: served_delay_def injected_delay_def serve_def handleRoot_def
      handleAPIData_def counter_inc_def observe_since_def observe_def getMessage_def
      Intn_def Let_def split: prod.splits)

lemma serve_process_delay:
  assumes "route r = ProcessRoute"
  shows "served_delay c r w =
     injected_delay c w +
     (if fst (applyBehavior c w) = 200 \<and> behavior c = ''slow''
      then 100 + next_int (snd (applyBehavior c w)) mod 400 else 0)"
  using assms applyBehavior_clock_mono [of w c]
  by (auto simp: served_delay_def injected_delay_def serve_def handleProcess_def
      counter_inc_def observe_since_def observe_def next_int_def
      Intn_def Sleep_def Let_def split: prod.splits)

lemma slow_result:
  assumes "behavior c = ''slow''"
  shows "applyBehavior c w =
     (200, Sleep (200 + next_int w mod 800) (w\<lparr>rand_calls := Suc (rand_calls w)\<rparr>))"
  using assms by (simp add: applyBehavior_def Intn_def next_int_def)

text \<open>
  C2. In chaotic mode \<open>applyBehavior\<close> sleeps between 500 and 1499 milliseconds exactly
  when its first float draw is below 0.3 (and not at all otherwise), and returns 500
  exactly when its second float draw is below 0.4, else 200, whatever the first draw was;
  the root, data and process routes answer with that status and that delay. On a grid of
  two independent uniform draws, 3 pairs in 10 are delayed, 4 in 10 give 500, and 12 in
  100 are both delayed and answered 500.
\<close>

theorem chaotic_two_draws:
  assumes "behavior c = ''chaotic''"
  shows "fst (applyBehavior c w) = (if second_float w < 0.4 then 500 else 200) \<and>
         (next_float w < 0.3 \<longrightarrow> 500 \<le> injected_delay c w \<and> injected_delay c w < 1500) \<and>
         (\<not> next_float w < 0.3 \<longrightarrow> injected_delay c w = 0) \<and>
         (route r \<in> {RootRoute, DataRoute, ProcessRoute} \<longrightarrow>
            status (fst (serve c r w)) = (if second_float w < 0.4 then 500 else 200) \<and>
            served_delay c r w = injected_delay c w) \<and>
         (10 dvd N \<longrightarrow>
            10 * grid_count c w N (\<lambda>d s. 0 < d) = 3 * (N * N) \<and>
            10 * grid_count c w N (\<lambda>d s. s = 500) = 4 * (N * N) \<and>
            100 * grid_count c w N (\<lambda>d s. 0 < d \<and> s = 500) = 12 * (N * N))"
proof -
  have res: "fst (applyBehavior c w) = (if second_float w < 0.4 then 500 else 200)"
    and del: "injected_delay c w =
      (if next_float w < 0.3 then 500 + rand_ints w (Suc (rand_calls w)) mod 1000 else 0)"
    using chaotic_result [OF assms, of w] by simp_all
  have routes: "status (fst (serve c r w)) = (if second_float w < 0.4 then 500 else 200) \<and>
      served_delay c r w = injected_delay c w"
    if r: "route r \<in> {RootRoute, DataRoute, ProcessRoute}"
  proof (cases "route r = ProcessRoute")
    case True
    with assms show ?thesis
      using serve_content_status [OF r, of c w] serve_process_delay [OF True, of c w] res
      by simp
  next
    case False
    with r have "route r \<in> {RootRoute, DataRoute}" by simp
    then show ?thesis
      using serve_content_status [OF r, of c w] serve_root_data_delay [of r c w] res
      by simp
  qed
  have counts: "10 * grid_count c w N (\<lambda>d s. 0 < d) = 3 * (N * N) \<and>
      10 * grid_count c w N (\<lambda>d s. s = 500) = 4 * (N * N) \<and>
      100 * grid_count c w N (\<lambda>d s. 0 < d \<and> s = 500) = 12 * (N * N)"
    if d: "10 dvd N"
  proof -
    from d obtain m where m: "N = 10 * m" by auto
    then have n: "N div 10 = m" by simp
    show ?thesis
      unfolding grid_count_chaotic [OF assms d] n
      by (simp add: m)
  qed
  have bound: "rand_ints w (Suc (rand_calls w)) mod 1000 < 1000"
    by simp
  from res del routes counts bound show ?thesis
    by (simp del: mod_less_divisor)
qed

theorem chaotic_two_draws_witness:
  "behavior (demo_config ''chaotic'') = ''chaotic'' \<and>
   next_float (demo_world (1/4) 0) < 0.3 \<and>
   fst (applyBehavior (demo_config ''chaotic'') (demo_world (1/4) 0)) = 500 \<and>
   500 \<le> injected_delay (demo_config ''chaotic'') (demo_world (1/4) 0) \<and>
   injected_delay (demo_config ''chaotic'') (demo_world (1/4) 0) < 1500 \<and>
   \<not> next_float (demo_world (1/2) 0) < 0.3 \<and>
   injected_delay (demo_config ''chaotic'') (demo_world (1/2) 0) = 0 \<and>
   fst (applyBehavior (demo_config ''chaotic'') (demo_world (1/2) 0)) = 200 \<and>
   route (GET RootRoute) \<in> {RootRoute, DataRoute, ProcessRoute} \<and>
   status (fst (serve (demo_config ''chaotic'') (GET RootRoute) (demo_world (1/4) 0))) = 500 \<and>
   (10::nat) dvd 10 \<and>
   grid_count (demo_config ''chaotic'') (demo_world 0 0) 10 (\<lambda>d s. 0 < d \<and> s = 500) = 12"
proof -
  have b: "behavior (demo_config ''chaotic'') = ''chaotic''" by simp
  have s: "second_float (demo_world x 0) = x" for x
    by (simp add: second_float_def demo_world_def fresh_world_def)
  show ?thesis
    using b s
      chaotic_two_draws [OF b, of "demo_world (1/4) 0" "GET RootRoute" 10]
      chaotic_two_draws [OF b, of "demo_world (1/2) 0" "GET RootRoute" 10]
      chaotic_two_draws [OF b, of "demo_world 0 0" "GET RootRoute" 10]
    by (simp add: GET_def)
qed

text \<open>
  C3, as amended. In slow mode \<open>applyBehavior\<close> returns 200 and sleeps 200 milliseconds
  plus the outcome of \<open>Intn 800\<close>, so at least 200 and less than 1000; the root and
  data routes answer 200 with exactly that delay. The process route answers 200 and then
  sleeps a further 100 milliseconds plus the outcome of \<open>Intn 400\<close>: its total delay is
  at least 300 and at most 1498 milliseconds.
\<close>

theorem slow_mode_delays:
  assumes "behavior c = ''slow''"
  shows "fst (applyBehavior c w) = 200 \<and>
         injected_delay c w = 200 + next_int w mod 800 \<and>
         200 \<le> injected_delay c w \<and> injected_delay c w < 1000 \<and>
         (route r \<in> {RootRoute, DataRoute, ProcessRoute} \<longrightarrow>
            status (fst (serve c r w)) = 200) \<and>
         (route r \<in> {RootRoute, DataRoute} \<longrightarrow> served_delay c r w = injected_delay c w) \<and>
         (route r = ProcessRoute \<longrightarrow>
            served_delay c r w =
              injected_delay c w + (100 + rand_ints w (Suc (rand_calls w)) mod 400) \<and>
            300 \<le> served_delay c r w \<and> served_delay c r w \<le> 1498)"
proof -
  define x where "x = next_int w mod 800"
  define y where "y = rand_ints w (Suc (rand_calls w)) mod 400"
  have x: "x < 800" and y: "y < 400"
    by (simp_all add: x_def y_def)
  have a: "applyBehavior c w =
      (200, Sleep (200 + x) (w\<lparr>rand_calls := Suc (rand_calls w)\<rparr>))"
    unfolding x_def by (rule slow_result [OF assms])
  then have d: "injected_delay c w = 200 + x"
    by (simp add: injected_delay_def Sleep_def)
  have p: "served_delay c r w = injected_delay c w + (100 + y)"
    if "route r = ProcessRoute"
    using serve_process_delay [OF that, of c w] assms a
    by (simp add: next_int_def Sleep_def y_def)
  have s: "status (fst (serve c r w)) = 200"
    if "route r \<in> {RootRoute, DataRoute, ProcessRoute}"
    using serve_content_status [OF that, of c w] a by simp
  have q: "served_delay c r w = injected_delay c w" if "route r \<in> {RootRoute, DataRoute}"
    using serve_root_data_delay [OF that] .
  have "fst (applyBehavior c w) = 200"
    using a by simp
  moreover have "200 \<le> injected_delay c w \<and> injected_delay c w < 1000"
    using d x by simp
  moreover have "300 \<le> served_delay c r w \<and> served_delay c r w \<le> 1498"
    if "route r = ProcessRoute"
    using p [OF that] d x y by simp
  ultimately show ?thesis
    using d p s q unfolding x_def y_def by blast
qed

theorem slow_mode_delays_witness:
  "behavior (demo_config ''slow'') = ''slow'' \<and>
   route (GET ProcessRoute) = ProcessRoute \<and>
   route (GET RootRoute) \<in> {RootRoute, DataRoute} \<and>
   injected_delay (demo_config ''slow'') (demo_world 0 799) = 999 \<and>
   status (fst (serve (demo_config ''slow'') (GET RootRoute) (demo_world 0 799))) = 200 \<and>
   served_delay (demo_config ''slow'') (GET RootRoute) (demo_world 0 799) = 999 \<and>
   served_delay (demo_config ''slow'') (GET ProcessRoute) (demo_world 0 799) = 1498"
proof -
  have b: "behavior (demo_config ''slow'') = ''slow''" by simp
  have n: "next_int (demo_world 0 799) = 799"
    and m: "rand_ints (demo_world 0 799) (Suc (rand_calls (demo_world 0 799))) = 799"
    by (simp_all add: next_int_def demo_world_def fresh_world_def)
  show ?thesis
    using b n m
      slow_mode_delays [OF b, of "demo_world 0 799" "GET RootRoute"]
      slow_mode_delays [OF b, of "demo_world 0 799" "GET ProcessRoute"]
    by (simp add: GET_def)
qed

text \<open>
  The bound of less than 1000 milliseconds fails on the process route: with both integer
  draws at their largest the request sleeps 1498 milliseconds.
\<close>

theorem slow_process_exceeds_1000:
  "behavior (demo_config ''slow'') = ''slow'' \<and>
   status (fst (serve (demo_config ''slow'') (GET ProcessRoute) (demo_world 0 799))) = 200 \<and>
   served_delay (demo_config ''slow'') (GET ProcessRoute) (demo_world 0 799) = 1498 \<and>
   \<not> served_delay (demo_config ''slow'') (GET ProcessRoute) (demo_world 0 799) < 1000"
  by (simp add: served_delay_def serve_def handleProcess_def applyBehavior_def GET_def
      demo_config_def demo_world_def fresh_world_def Intn_def Sleep_def counter_inc_def
      observe_since_def observe_def json_ok_def Let_def)

subsection \<open>The metric series\<close>

lemma itoa_503: "itoa 503 = ''503''"
  by (simp add: itoa.simps digit_def)

lemma endpoint_inj: "endpoint a = endpoint b \<longleftrightarrow> a = b"
  by (cases a; cases b) simp_all

lemma handleRoot_metrics:
  "requestCounter (snd (handleRoot c r w)) =
     add_mset (Method r, ''/'', itoa (status (fst (handleRoot c r w)))) (requestCounter w) \<and>
   requestDuration (snd (handleRoot c r w)) =
     add_mset ((Method r, ''/''), real (clock (snd (handleRoot c r w)) - clock w) / 1000)
       (requestDuration w) \<and>
   versionGauge (snd (handleRoot c r w)) = versionGauge w"
  using applyBehavior_status [of c w] applyBehavior_frame [of c w]
    getMessage_frame [of c "counter_inc (Method r, ''/'', ''200'') (snd (applyBehavior c w))"]
  by (auto simp: handleRoot_def counter_inc_def observe_since_def observe_def http_Error_def
      json_ok_def itoa_200 itoa_500 Let_def split: prod.splits)

lemma handleAPIData_metrics:
  "requestCounter (snd (handleAPIData c r w)) =
     add_mset (Method r, ''/api/data'', itoa (status (fst (handleAPIData c r w))))
       (requestCounter w) \<and>
   requestDuration (snd (handleAPIData c r w)) =
     add_mset ((Method r, ''/api/data''),
        real (clock (snd (handleAPIData c r w)) - clock w) / 1000) (requestDuration w) \<and>
   versionGauge (snd (handleAPIData c r w)) = versionGauge w"
  using applyBehavior_status [of c w] applyBehavior_frame [of c w]
  by (auto simp: handleAPIData_def counter_inc_def observe_since_def observe_def
      http_Error_def json_ok_def itoa_200 itoa_500 Intn_def Let_def split: prod.splits)

lemma handleProcess_metrics:
  "requestCounter (snd (handleProcess c r w)) =
     add_mset (Method r, ''/api/process'', itoa (status (fst (handleProcess c r w))))
       (requestCounter w) \<and>
   requestDuration (snd (handleProcess c r w)) =
     add_mset ((Method r, ''/api/process''),
        real (clock (snd (handleProcess c r w)) - clock w) / 1000) (requestDuration w) \<and>
   versionGauge (snd (handleProcess c r w)) = versionGauge w"
  using applyBehavior_status [of c w] applyBehavior_frame [of c w]
  by (auto simp: handleProcess_def counter_inc_def observe_since_def observe_def
      http_Error_def json_ok_def itoa_200 itoa_500 Intn_def Sleep_def Let_def
      split: prod.splits)

lemma handleHealth_metrics:
  "requestCounter (snd (handleHealth c r w)) =
     add_mset (Method r, ''/health'', itoa (status (fst (handleHealth c r w))))
       (requestCounter w) \<and>
   requestDuration (snd (handleHealth c r w)) =
     add_mset ((Method r, ''/health''),
        real (clock (snd (handleHealth c r w)) - clock w) / 1000) (requestDuration w) \<and>
   versionGauge (snd (handleHealth c r w)) = versionGauge w"
  by (simp add: handleHealth_def counter_inc_def observe_since_def observe_def
      json_ok_def itoa_200 itoa_503 Float32_def Let_def)

lemma handleMetrics_metrics:
  "requestCounter (snd (handleMetrics c r w)) = requestCounter w \<and>
   requestDuration (snd (handleMetrics c r w)) = requestDuration w \<and>
   versionGauge (snd (handleMetrics c r w)) = versionGauge w"
  by (simp add: handleMetrics_def)

lemma serve_instrumented:
  assumes "route r \<noteq> MetricsRoute"
  shows "requestCounter (snd (serve c r w)) =
           add_mset (Method r, endpoint (route r), itoa (status (fst (serve c r w))))
             (requestCounter w) \<and>
         requestDuration (snd (serve c r w)) =
           add_mset ((Method r, endpoint (route r)), real (served_delay c r w) / 1000)
             (requestDuration w)"
  using assms handleRoot_metrics [of c r w] handleAPIData_metrics [of c r w]
    handleProcess_metrics [of c r w] handleHealth_metrics [of c r w]
  by (cases "route r") (simp_all add: serve_def served_delay_def)

lemma serve_scrape:
  assumes "route r = MetricsRoute"
  shows "requestCounter (snd (serve c r w)) = requestCounter w \<and>
         requestDuration (snd (serve c r w)) = requestDuration w"
  using assms by (simp add: serve_def handleMetrics_def)

lemma serve_gauge: "versionGauge (snd (serve c r w)) = versionGauge w"
  using handleRoot_metrics [of c r w] handleAPIData_metrics [of c r w]
    handleProcess_metrics [of c r w] handleHealth_metrics [of c r w]
    handleMetrics_metrics [of c r w]
  by (cases "route r") (simp_all add: serve_def)

lemma serve_all_gauge: "versionGauge (serve_all c rs w) = versionGauge w"
  by (induction rs arbitrary: w) (simp_all add: serve_gauge)

lemma serve_counter_sum:
  "counter_sum (endpoint rt) (requestCounter (snd (serve c r w))) =
   counter_sum (endpoint rt) (requestCounter w) +
   (if route r = rt \<and> rt \<noteq> MetricsRoute then 1 else 0)"
proof (cases "route r = MetricsRoute")
  case True
  then show ?thesis
    using serve_scrape [OF True, of c w] by auto
next
  case False
  then show ?thesis
    using serve_instrumented [OF False, of c w]
    by (auto simp: counter_sum_def endpoint_inj)
qed

lemma serve_observation_count:
  "observation_count (endpoint rt) (requestDuration (snd (serve c r w))) =
   observation_count (endpoint rt) (requestDuration w) +
   (if route r = rt \<and> rt \<noteq> MetricsRoute then 1 else 0)"
proof (cases "route r = MetricsRoute")
  case True
  then show ?thesis
    using serve_scrape [OF True, of c w] by auto
next
  case False
  then show ?thesis
    using serve_instrumented [OF False, of c w]
    by (auto simp: observation_count_def endpoint_inj)
qed

lemma serve_all_counter_sum:
  "counter_sum (endpoint rt) (requestCounter (serve_all c rs w)) =
   counter_sum (endpoint rt) (requestCounter w) +
   (if rt \<noteq> MetricsRoute then requests_to rt rs else 0)"
proof (induction rs arbitrary: w)
  case Nil
  then show ?case by (simp add: requests_to_def)
next
  case (Cons r rs)
  show ?case
    by (simp add: Cons.IH serve_counter_sum requests_to_def)
qed

lemma serve_all_observation_count:
  "observation_count (endpoint rt) (requestDuration (serve_all c rs w)) =
   observation_count (endpoint rt) (requestDuration w) +
   (if rt \<noteq> MetricsRoute then requests_to rt rs else 0)"
proof (induction rs arbitrary: w)
  case Nil
  then show ?case by (simp add: requests_to_def)
next
  case (Cons r rs)
  show ?case
    by (simp add: Cons.IH serve_observation_count requests_to_def)
qed

lemma startup_series:
  "requestCounter (startup c (fresh_world fs ns)) = {#} \<and>
   requestDuration (startup c (fresh_world fs ns)) = {#} \<and>
   versionGauge (startup c (fresh_world fs ns)) = [(version c, behavior c, hostname c) \<mapsto> 1]"
  by (simp add: startup_def fresh_world_def)

text \<open>
  C5, as amended. A request to the root, health, data or process route adds exactly one
  sample to the request counter, labelled with the method of the request, the route and
  the decimal status code of the response that was sent, and exactly one observation to
  the duration histogram, labelled with the method and the route. A request to the
  metrics route adds nothing to either series. Hence, after start-up and any finite
  sequence of requests, the counter summed over the labels of one of the four
  instrumented routes, and the number of its observations, equal the number of requests
  made to that route.
\<close>

theorem request_metrics:
  "(route r \<noteq> MetricsRoute \<longrightarrow>
      requestCounter (snd (serve c r w)) =
        add_mset (Method r, endpoint (route r), itoa (status (fst (serve c r w))))
          (requestCounter w) \<and>
      requestDuration (snd (serve c r w)) =
        add_mset ((Method r, endpoint (route r)), real (served_delay c r w) / 1000)
          (requestDuration w)) \<and>
   (route r = MetricsRoute \<longrightarrow>
      requestCounter (snd (serve c r w)) = requestCounter w \<and>
      requestDuration (snd (serve c r w)) = requestDuration w) \<and>
   (rt \<noteq> MetricsRoute \<longrightarrow>
      counter_sum (endpoint rt)
        (requestCounter (serve_all c rs (startup c (fresh_world fs ns)))) =
        requests_to rt rs \<and>
      observation_count (endpoint rt)
        (requestDuration (serve_all c rs (startup c (fresh_world fs ns)))) =
        requests_to rt rs)"
  using serve_instrumented [of r c w] serve_scrape [of r c w]
    serve_all_counter_sum [of rt c rs "startup c (fresh_world fs ns)"]
    serve_all_observation_count [of rt c rs "startup c (fresh_world fs ns)"]
    startup_series [of c fs ns]
  by (simp add: counter_sum_def observation_count_def)

theorem request_metrics_witness:
  "route (GET RootRoute) \<noteq> MetricsRoute \<and> RootRoute \<noteq> MetricsRoute \<and>
   requestCounter (snd (serve (demo_config ''normal'') (GET RootRoute) (demo_world 0 0))) =
     {#(''GET'', ''/'', ''200'')#} \<and>
   requestDuration (snd (serve (demo_config ''normal'') (GET RootRoute) (demo_world 0 0))) =
     {#((''GET'', ''/''), 0)#} \<and>
   route (GET MetricsRoute) = MetricsRoute \<and>
   requestCounter (snd (serve (demo_config ''normal'') (GET MetricsRoute) (demo_world 0 0))) =
     {#} \<and>
   counter_sum ''/''
     (requestCounter (serve_all (demo_config ''normal'')
        [GET RootRoute, GET HealthRoute, GET RootRoute, GET MetricsRoute]
        (startup (demo_config ''normal'') (fresh_world (\<lambda>_. 0) (\<lambda>_. 0))))) = 2"
proof -
  let ?c = "demo_config ''normal''"
  have st: "status (fst (serve ?c (GET RootRoute) (demo_world 0 0))) = 200"
    using serve_normal_status [of ?c] by simp
  have dl: "served_delay ?c (GET RootRoute) (demo_world 0 0) = 0"
    using serve_normal_clock [of ?c] by (simp add: served_delay_def)
  have w0: "requestCounter (demo_world 0 0) = {#} \<and> requestDuration (demo_world 0 0) = {#}"
    by (simp add: demo_world_def fresh_world_def)
  have n: "requests_to RootRoute
      [GET RootRoute, GET HealthRoute, GET RootRoute, GET MetricsRoute] = 2"
    by (simp add: requests_to_def GET_def)
  show ?thesis
    using st dl w0 n
      request_metrics [of "GET RootRoute" ?c "demo_world 0 0" RootRoute
        "[GET RootRoute, GET HealthRoute, GET RootRoute, GET MetricsRoute]" "\<lambda>_. 0" "\<lambda>_. 0"]
      request_metrics [of "GET MetricsRoute" ?c "demo_world 0 0" RootRoute "[]" "\<lambda>_. 0" "\<lambda>_. 0"]
    by (simp add: GET_def itoa_200)
qed

text \<open>
  The metrics route is one of the fixed routes, and a request to it is not counted: after
  one scrape the counter of that route is still 0 and the histogram has no observation.
\<close>

theorem metrics_route_not_counted:
  "requests_to MetricsRoute [GET MetricsRoute] = 1 \<and>
   status (fst (serve (demo_config ''normal'') (GET MetricsRoute)
     (startup (demo_config ''normal'') (fresh_world (\<lambda>_. 0) (\<lambda>_. 0))))) = 200 \<and>
   counter_sum (endpoint MetricsRoute)
     (requestCounter (serve_all (demo_config ''normal'') [GET MetricsRoute]
        (startup (demo_config ''normal'') (fresh_world (\<lambda>_. 0) (\<lambda>_. 0))))) = 0 \<and>
   observation_count (endpoint MetricsRoute)
     (requestDuration (serve_all (demo_config ''normal'') [GET MetricsRoute]
        (startup (demo_config ''normal'') (fresh_world (\<lambda>_. 0) (\<lambda>_. 0))))) = 0"
  by (simp add: requests_to_def GET_def serve_def handleMetrics_def startup_def
      fresh_world_def counter_sum_def observation_count_def)

text \<open>
  C8. Start-up sets the gauge sample of (version, behavior, hostname) to 1 and writes no
  other series; no request on any route writes the gauge. After start-up and any finite
  sequence of requests the sample is still 1.
\<close>

theorem gauge_static:
  "versionGauge (startup c (fresh_world fs ns)) = [(version c, behavior c, hostname c) \<mapsto> 1] \<and>
   versionGauge (snd (serve c r w)) = versionGauge w \<and>
   versionGauge (serve_all c rs w) = versionGauge w \<and>
   versionGauge (serve_all c rs (startup c (fresh_world fs ns)))
     (version c, behavior c, hostname c) = Some 1 \<and>
   requestCounter (startup c w) = requestCounter w \<and>
   requestDuration (startup c w) = requestDuration w"
  by (simp add: serve_all_gauge serve_gauge startup_series) (simp add: startup_def)

subsection \<open>Unrecognized behaviour strings\<close>

lemma unrecognized_status:
  assumes "behavior c \<notin> {''normal'', ''slow'', ''error-prone'', ''chaotic''}"
  shows "applyBehavior c w = (200, w)"
  using assms by (simp add: applyBehavior_def)

lemma unrecognized_message:
  assumes "behavior c \<notin> {''normal'', ''slow'', ''error-prone'', ''chaotic''}"
  shows "getMessage c w = (''Unknown state'', w)"
  using assms by (simp add: getMessage_def messages_def)

lemma normal_message:
  assumes "behavior c = ''normal''"
  shows "fst (getMessage c w) \<in>
     {''Service operating normally'', ''All systems functional'',
      ''Request processed successfully''}"
proof -
  have "next_int w mod 3 = 0 \<or> next_int w mod 3 = 1 \<or> next_int w mod 3 = 2"
    by presburger
  then show ?thesis
    using assms
    by (auto simp: getMessage_def messages_def Intn_def next_int_def)
qed

lemma root_message_field:
  assumes "fst (applyBehavior c w) = 200"
  shows "json_field ''message'' (body (fst (handleRoot c r w))) =
     Some (JString (fst (getMessage c
       (counter_inc (Method r, ''/'', ''200'') (snd (applyBehavior c w)))))) \<and>
     json_field ''behavior'' (body (fst (handleRoot c r w))) = Some (JString (behavior c))"
  using assms
  by (cases "applyBehavior c w")
     (simp add: handleRoot_def json_ok_def itoa_200 Let_def split: prod.splits)

lemma unrecognized_same_as_normal:
  assumes "behavior c \<notin> {''normal'', ''slow'', ''error-prone'', ''chaotic''}"
    and "route r \<noteq> RootRoute"
  shows "serve c r w = serve (c\<lparr>behavior := ''normal''\<rparr>) r w"
  using assms
  by (cases "route r")
     (simp_all add: serve_def handleAPIData_def handleProcess_def handleHealth_def
       handleMetrics_def unrecognized_status normal_status)

lemma unrecognized_no_delay:
  assumes "behavior c \<notin> {''normal'', ''slow'', ''error-prone'', ''chaotic''}"
  shows "status (fst (serve c r w)) = 200 \<and> served_delay c r w = 0"
  using assms
  by (cases "route r")
     (simp_all add: served_delay_def serve_def handleRoot_def handleAPIData_def
       handleProcess_def handleHealth_def handleMetrics_def unrecognized_status
       unrecognized_message counter_inc_def observe_since_def observe_def json_ok_def
       Intn_def Let_def)

text \<open>
  C6, as amended. For a behaviour string that is none of normal, slow, error-prone and
  chaotic, \<open>applyBehavior\<close> returns 200 without a draw or a sleep; every route answers
  with the status and the (zero) delay of normal mode, and the health, data and process
  routes answer exactly as in normal mode, body and world included. The root
  route differs from normal mode in its body: the behavior field is the configured string
  and the message is "Unknown state", which no response of normal mode carries.
\<close>

theorem unrecognized_mode:
  assumes "behavior c \<notin> {''normal'', ''slow'', ''error-prone'', ''chaotic''}"
  shows "applyBehavior c w = (200, w) \<and>
         status (fst (serve c r w)) = status (fst (serve (c\<lparr>behavior := ''normal''\<rparr>) r w)) \<and>
         served_delay c r w = served_delay (c\<lparr>behavior := ''normal''\<rparr>) r w \<and>
         served_delay c r w = 0 \<and>
         (route r \<in> {HealthRoute, DataRoute, ProcessRoute} \<longrightarrow>
            serve c r w = serve (c\<lparr>behavior := ''normal''\<rparr>) r w) \<and>
         (route r = RootRoute \<longrightarrow>
            json_field ''message'' (body (fst (serve c r w))) =
              Some (JString ''Unknown state'') \<and>
            json_field ''behavior'' (body (fst (serve c r w))) = Some (JString (behavior c)) \<and>
            json_field ''message'' (body (fst (serve (c\<lparr>behavior := ''normal''\<rparr>) r w))) \<noteq>
              Some (JString ''Unknown state''))"
proof -
  let ?n = "c\<lparr>behavior := ''normal''\<rparr>"
  have n: "behavior ?n = ''normal''" by simp
  have a: "applyBehavior c w = (200, w)"
    by (rule unrecognized_status [OF assms])
  have s: "status (fst (serve c r w)) = 200 \<and> served_delay c r w = 0"
    by (rule unrecognized_no_delay [OF assms])
  have s': "status (fst (serve ?n r w)) = 200 \<and> served_delay ?n r w = 0"
    using serve_normal_status [OF n, of r w] serve_normal_clock [OF n, of r w]
    by (simp add: served_delay_def)
  have root: "json_field ''message'' (body (fst (serve c r w))) =
        Some (JString ''Unknown state'') \<and>
      json_field ''behavior'' (body (fst (serve c r w))) = Some (JString (behavior c)) \<and>
      json_field ''message'' (body (fst (serve ?n r w))) \<noteq> Some (JString ''Unknown state'')"
    if r: "route r = RootRoute"
  proof -
    have "fst (applyBehavior ?n w) = 200"
      using normal_status [OF n, of w] by simp
    from root_message_field [OF this, of r]
      normal_message [OF n, of "counter_inc (Method r, ''/'', ''200'') (snd (applyBehavior ?n w))"]
    have "json_field ''message'' (body (fst (handleRoot ?n r w))) \<noteq>
        Some (JString ''Unknown state'')"
      by auto
    moreover have "fst (applyBehavior c w) = 200"
      using a by simp
    from root_message_field [OF this, of r]
    have "json_field ''message'' (body (fst (handleRoot c r w))) =
        Some (JString ''Unknown state'') \<and>
      json_field ''behavior'' (body (fst (handleRoot c r w))) = Some (JString (behavior c))"
      by (simp add: unrecognized_message [OF assms])
    ultimately show ?thesis
      using r by (simp add: serve_def)
  qed
  have same: "serve c r w = serve ?n r w"
    if "route r \<in> {HealthRoute, DataRoute, ProcessRoute}"
  proof (rule unrecognized_same_as_normal [OF assms])
    from that show "route r \<noteq> RootRoute" by auto
  qed
  from a s s' root same show ?thesis
    by simp
qed

theorem unrecognized_mode_witness:
  "behavior (demo_config ''turbo'') \<notin> {''normal'', ''slow'', ''error-prone'', ''chaotic''} \<and>
   route (GET RootRoute) = RootRoute \<and>
   route (GET ProcessRoute) \<in> {HealthRoute, DataRoute, ProcessRoute} \<and>
   applyBehavior (demo_config ''turbo'') (demo_world 0 0) = (200, demo_world 0 0) \<and>
   served_delay (demo_config ''turbo'') (GET RootRoute) (demo_world 0 0) = 0 \<and>
   json_field ''message''
     (body (fst (serve (demo_config ''turbo'') (GET RootRoute) (demo_world 0 0)))) =
     Some (JString ''Unknown state'') \<and>
   json_field ''behavior''
     (body (fst (serve (demo_config ''turbo'') (GET RootRoute) (demo_world 0 0)))) =
     Some (JString ''turbo'') \<and>
   serve (demo_config ''turbo'') (GET ProcessRoute) (demo_world 0 0) =
     serve ((demo_config ''turbo'')\<lparr>behavior := ''normal''\<rparr>) (GET ProcessRoute)
       (demo_world 0 0)"
proof -
  have b: "behavior (demo_config ''turbo'') \<notin>
      {''normal'', ''slow'', ''error-prone'', ''chaotic''}"
    by simp
  show ?thesis
    using b
      unrecognized_mode [OF b, of "demo_world 0 0" "GET RootRoute"]
      unrecognized_mode [OF b, of "demo_world 0 0" "GET ProcessRoute"]
    by (simp add: GET_def)
qed

text \<open>
  The root bodies of an unrecognized mode and of normal mode differ on the same request
  and the same world: the message is "Unknown state" in one and a message of normal mode
  in the other.
\<close>

theorem unrecognized_root_body_differs:
  "json_field ''message''
     (body (fst (serve (demo_config ''turbo'') (GET RootRoute) (demo_world 0 0)))) =
     Some (JString ''Unknown state'') \<and>
   json_field ''message''
     (body (fst (serve (demo_config ''normal'') (GET RootRoute) (demo_world 0 0)))) =
     Some (JString ''Service operating normally'') \<and>
   body (fst (serve (demo_config ''turbo'') (GET RootRoute) (demo_world 0 0))) \<noteq>
   body (fst (serve (demo_config ''normal'') (GET RootRoute) (demo_world 0 0)))"
  by (simp add: serve_def handleRoot_def applyBehavior_def getMessage_def messages_def
      GET_def demo_config_def demo_world_def fresh_world_def Intn_def counter_inc_def
      observe_since_def observe_def json_ok_def itoa_200 Let_def)

end
